theory Spec2Isabelle
  imports Main "HOL-Library.AList"
begin

section \<open>Values shared by the classes of discord/poll.py\<close>

text \<open>
  Exceptions are values. \<open>RuntimeError\<close>, \<open>ValueError\<close> and \<open>TypeError\<close> carry their
  message; \<open>NameError\<close> carries the name that is not defined; \<open>IndexError\<close> is what list
  indexing raises; \<open>HTTPException\<close> stands for whatever the transport raises, which
  poll.py never catches.
\<close>

datatype error =
    RuntimeError string
  | ValueError string
  | TypeError string
  | NameError string
  | IndexError
  | HTTPException

text \<open>
  Modelled from the spec: the classes \<open>ConnectionState\<close>, \<open>Message\<close> and the channel are not
  under src/. A \<open>ConnectionState\<close> is a handle; a \<open>Message\<close> is what poll.py reads from it,
  \<open>message.id\<close>, \<open>message.channel.id\<close> and \<open>message._state\<close>. Both are plain objects:
  \<open>not self._message\<close> and \<open>not self._state\<close> are true for \<open>None\<close> only.
\<close>

type_synonym ConnectionState = nat

record Channel =
  channel_id :: int

record Message =
  message_id :: int
  channel :: Channel
  message_state :: ConnectionState

text \<open>
  Modelled from the spec: the transport \<open>state.http\<close> and the class \<open>User\<close> are not under
  src/. The transport has the two calls poll.py makes,
  \<open>get_poll_answer_voters(channel_id, message_id, answer_id, after, limit)\<close>, which gives
  the \<open>users\<close> of the response or raises, and \<open>end_poll(channel_id, message_id)\<close>, which
  gives a message payload or raises. A request that is issued is appended to the log of
  requests sent so far, so "no network request" is "the log is unchanged". The argument
  \<open>after\<close> is \<open>None\<close> for \<open>MISSING\<close> and \<open>Some i\<close> for a snowflake with id \<open>i\<close>. A \<open>User\<close> is
  the state and the payload it was built from.
\<close>

datatype request =
    GetPollAnswerVoters int int int "int option" int
  | EndPoll int int

record ('u, 'm) HTTPClient =
  get_poll_answer_voters :: "int \<Rightarrow> int \<Rightarrow> int \<Rightarrow> int option \<Rightarrow> int \<Rightarrow> error + 'u list"
  end_poll :: "int \<Rightarrow> int \<Rightarrow> error + 'm"

datatype 'u User = User ConnectionState 'u

text \<open>
  What \<open>Poll.end\<close> is declared to return: the \<open>Message\<close> made of a state, a channel and
  the data of the response.
\<close>

datatype 'm EndedMessage = MessageOf "ConnectionState option" Channel 'm

section \<open>Payloads\<close>

text \<open>
  Modelled from the spec: the payload types of discord/types/poll.py are not under src/.
  The inbound wire shape is
  \<open>{question:{text}, answers:[{answer_id, poll_media:{text, emoji?:{id?,name}}}],
  allow_multiselect?, expiry, layout_type?, results?:{is_finalized,
  answer_counts:[{id, me_voted, count}]}}\<close>; an optional key is an \<open>option\<close>, and so is
  \<open>expiry\<close>, which the source reads with \<open>data.get('expiry')\<close>.
  Ids are integers, on which Python's \<open>int(...)\<close> is the identity.
\<close>

record PollEmojiPayload =
  emoji_id :: "int option"
  emoji_name :: string

record PollMediaPayload =
  media_text :: string
  media_emoji :: "PollEmojiPayload option"

record PollAnswerWithIDPayload =
  pl_answer_id :: int
  pl_poll_media :: PollMediaPayload

record PollAnswerCountPayload =
  pl_id :: int
  pl_me_voted :: bool
  pl_count :: int

record PollResultsPayload =
  pl_is_finalized :: bool
  pl_answer_counts :: "PollAnswerCountPayload list"

record PollWithExpiryPayload =
  pl_question_text :: string
  pl_answers :: "PollAnswerWithIDPayload list"
  pl_allow_multiselect :: "bool option"
  pl_expiry :: "string option"
  pl_layout_type :: "int option"
  pl_results :: "PollResultsPayload option"

text \<open>
  Outbound payloads are the dictionaries \<open>_to_dict\<close> builds. A dictionary is an
  association list in insertion order; \<open>d[k] = v\<close> is \<open>AList.update k v d\<close>.
\<close>

datatype json =
    JBool bool
  | JInt int
  | JStr string
  | JList "json list"
  | JDict "(string \<times> json) list"

fun json_keys :: "json \<Rightarrow> string list" where
  "json_keys (JDict kvs) = map fst kvs"
| "json_keys _ = []"

section \<open>PollMedia and PollAnswerCount\<close>

record PollMedia =
  "text" :: string
  emoji :: "PollEmojiPayload option"

record PollAnswerCount =
  count_state :: ConnectionState
  count_message :: Message
  count_id :: int
  me_voted :: bool
  count :: int

definition PollAnswerCount_init ::
  "ConnectionState \<Rightarrow> Message \<Rightarrow> PollAnswerCountPayload \<Rightarrow> PollAnswerCount" where
  "PollAnswerCount_init state message data =
     \<lparr>count_state = state, count_message = message,
      count_id = pl_id data, me_voted = pl_me_voted data, count = pl_count data\<rparr>"

text \<open>
  \<open>PollAnswerCount.users\<close>, awaited: the source calls the transport at once, with no
  check on the message or on \<open>limit\<close>.
\<close>

definition PollAnswerCount_users ::
  "(ConnectionState \<Rightarrow> ('u, 'm) HTTPClient) \<Rightarrow> PollAnswerCount \<Rightarrow> int option \<Rightarrow> int
     \<Rightarrow> request list \<Rightarrow> (error + 'u User list) \<times> request list" where
  "PollAnswerCount_users http self after limit net =
     (let m = count_message self;
          net' = net @ [GetPollAnswerVoters (channel_id (channel m)) (message_id m)
                          (count_id self) after limit]
      in case get_poll_answer_voters (http (count_state self))
                (channel_id (channel m)) (message_id m) (count_id self) after limit of
           Inl e \<Rightarrow> (Inl e, net')
         | Inr users \<Rightarrow> (Inr (map (User (count_state self)) users), net'))"

section \<open>PollAnswer\<close>

record PollAnswer =
  media :: PollMedia
  answer_id :: int
  answer_state :: "ConnectionState option"
  answer_message :: "Message option"

definition PollAnswer_init :: "PollAnswerWithIDPayload \<Rightarrow> Message option \<Rightarrow> PollAnswer" where
  "PollAnswer_init data message =
     \<lparr>media = \<lparr>text = media_text (pl_poll_media data),
               emoji = media_emoji (pl_poll_media data)\<rparr>,
      answer_id = pl_answer_id data,
      answer_state = (case message of None \<Rightarrow> None | Some m \<Rightarrow> Some (message_state m)),
      answer_message = message\<rparr>"

text \<open>
  The \<open>emoji\<close> argument of \<open>from_params\<close> is an \<open>Emoji\<close> or \<open>PartialEmoji\<close> object, seen
  through the two things the source reads from it (\<open>emoji.id\<close> and \<open>str(emoji)\<close>), or a
  plain string. \<open>if emoji:\<close> is false for the empty string only.
\<close>

datatype emoji_arg =
    EmojiObject "int option" string
  | EmojiString string

fun emoji_truthy :: "emoji_arg \<Rightarrow> bool" where
  "emoji_truthy (EmojiObject i s) = True"
| "emoji_truthy (EmojiString s) = (s \<noteq> [])"

fun emoji_arg_payload :: "emoji_arg \<Rightarrow> PollEmojiPayload" where
  "emoji_arg_payload (EmojiObject i s) = \<lparr>emoji_id = i, emoji_name = s\<rparr>"
| "emoji_arg_payload (EmojiString s) = \<lparr>emoji_id = None, emoji_name = s\<rparr>"

definition from_params ::
  "int \<Rightarrow> string \<Rightarrow> emoji_arg option \<Rightarrow> Message option \<Rightarrow> PollAnswer" where
  "from_params i txt em message =
     (let poll_media = \<lparr>media_text = txt, media_emoji = None\<rparr>;
          poll_media = (case em of
                          None \<Rightarrow> poll_media
                        | Some e \<Rightarrow> if emoji_truthy e
                                    then poll_media\<lparr>media_emoji := Some (emoji_arg_payload e)\<rparr>
                                    else poll_media);
          payload = \<lparr>pl_answer_id = i, pl_poll_media = poll_media\<rparr>
      in PollAnswer_init payload message)"

definition PollAnswer_text :: "PollAnswer \<Rightarrow> string" where
  "PollAnswer_text self = text (media self)"

text \<open>
  Modelled from the spec: the class \<open>PartialEmoji\<close> is not under src/. It is the emoji
  reference of the spec, a name and an optional integer id, and a plain object, so that
  \<open>self.emoji is not None\<close> whenever the property returns one. Its string rendering
  \<open>str(emoji)\<close> is the parameter \<open>emoji_str\<close> of \<open>_to_dict\<close>.

  The \<open>emoji\<close> property: the payload of an emoji always has a name, so as a dictionary
  it is never empty and \<open>if self.media.emoji:\<close> is false for \<open>None\<close> only.
\<close>

record PartialEmoji =
  name :: string
  partial_id :: "int option"

text \<open>
  The spec gives no rendering. \<open>PartialEmoji_str\<close> is the rendering discord.py's
  \<open>PartialEmoji.__str__\<close> makes of an emoji that is not animated, as the one the property
  builds: the name, or \<open>_\<close> for an empty name, alone when there is no id and as
  \<open><:name:id>\<close> when there is one, the id in decimal.
\<close>

fun str_nat :: "nat \<Rightarrow> string" where
  "str_nat n =
     (if n < 10 then [''0123456789'' ! n]
      else str_nat (n div 10) @ [''0123456789'' ! (n mod 10)])"

definition str_int :: "int \<Rightarrow> string" where
  "str_int i = (if i < 0 then ''-'' @ str_nat (nat (- i)) else str_nat (nat i))"

definition PartialEmoji_str :: "PartialEmoji \<Rightarrow> string" where
  "PartialEmoji_str e =
     (let nm = (if name e = [] then ''_'' else name e)
      in case partial_id e of
           None \<Rightarrow> nm
         | Some i \<Rightarrow> ''<:'' @ nm @ '':'' @ str_int i @ ''>'')"

definition PollAnswer_emoji :: "PollAnswer \<Rightarrow> PartialEmoji option" where
  "PollAnswer_emoji self =
     (case emoji (media self) of
        None \<Rightarrow> None
      | Some e \<Rightarrow> Some \<lparr>name = emoji_name e, partial_id = emoji_id e\<rparr>)"

text \<open>
  \<open>_to_dict\<close> of an answer. \<open>if self.emoji.id:\<close> is false for \<open>None\<close> and for \<open>0\<close>.
\<close>

definition PollAnswer_to_dict :: "(PartialEmoji \<Rightarrow> string) \<Rightarrow> PollAnswer \<Rightarrow> json" where
  "PollAnswer_to_dict emoji_str self =
     (let data = AList.update ''text'' (JStr (PollAnswer_text self)) []
      in case PollAnswer_emoji self of
           None \<Rightarrow> JDict data
         | Some e \<Rightarrow>
             (let em = AList.update ''name'' (JStr (emoji_str e)) [];
                  em = (case partial_id e of
                          None \<Rightarrow> em
                        | Some i \<Rightarrow> if i \<noteq> 0 then AList.update ''id'' (JInt i) em else em)
              in JDict (AList.update ''emoji'' (JDict em) data)))"

text \<open>\<open>PollAnswer.users\<close>, awaited: two checks, then the request.\<close>

definition PollAnswer_users ::
  "(ConnectionState \<Rightarrow> ('u, 'm) HTTPClient) \<Rightarrow> PollAnswer \<Rightarrow> int option \<Rightarrow> int
     \<Rightarrow> request list \<Rightarrow> (error + 'u User list) \<times> request list" where
  "PollAnswer_users http self after limit net =
     (case answer_message self of
        None \<Rightarrow> (Inl (RuntimeError ''You cannot fetch users in a non-message-attached poll''), net)
      | Some m \<Rightarrow>
         (case answer_state self of
            None \<Rightarrow>
              (Inl (RuntimeError ''You cannot fetch users in a non-message-attached poll''), net)
          | Some st \<Rightarrow>
              if 0 > limit \<or> limit > 100
              then (Inl (ValueError ''limit can only be within 0 and 100''), net)
              else
                (let net' = net @ [GetPollAnswerVoters (channel_id (channel m)) (message_id m)
                                     (answer_id self) after limit]
                 in case get_poll_answer_voters (http st)
                           (channel_id (channel m)) (message_id m) (answer_id self) after limit of
                      Inl e \<Rightarrow> (Inl e, net')
                    | Inr users \<Rightarrow> (Inr (map (User st) users), net'))))"

section \<open>Lists as objects\<close>

text \<open>
  The lists a poll holds are Python objects: \<open>copy()\<close> makes a new object and \<open>append\<close>
  changes one in place. The heap maps a reference to the list stored there, one map for
  lists of answers and one for lists of tallies; \<open>next_ref\<close> is the first reference not yet
  handed out.
\<close>

record heap =
  answer_lists :: "nat \<Rightarrow> PollAnswer list"
  count_lists :: "nat \<Rightarrow> PollAnswerCount list"
  next_ref :: nat

definition new_answer_list :: "PollAnswer list \<Rightarrow> heap \<Rightarrow> nat \<times> heap" where
  "new_answer_list xs h =
     (next_ref h, h\<lparr>answer_lists := (answer_lists h)(next_ref h := xs),
                    next_ref := Suc (next_ref h)\<rparr>)"

definition new_count_list :: "PollAnswerCount list \<Rightarrow> heap \<Rightarrow> nat \<times> heap" where
  "new_count_list xs h =
     (next_ref h, h\<lparr>count_lists := (count_lists h)(next_ref h := xs),
                    next_ref := Suc (next_ref h)\<rparr>)"

text \<open>\<open>xs[i]\<close> in Python: a negative index counts from the end, out of range raises.\<close>

definition getitem :: "'a list \<Rightarrow> int \<Rightarrow> error + 'a" where
  "getitem xs i =
     (let n = int (length xs)
      in if 0 \<le> i \<and> i < n then Inr (xs ! nat i)
         else if - n \<le> i \<and> i < 0 then Inr (xs ! nat (n + i))
         else Inl IndexError)"

section \<open>Poll\<close>

text \<open>
  Modelled from the spec: \<open>PollLayoutType\<close> and \<open>try_enum\<close> of discord/enums.py are not
  under src/. The layout is an enumeration with the one member \<open>default = 1\<close>; an unknown
  value is kept as it came.
\<close>

datatype PollLayoutType = default_layout | unknown_layout int

definition try_enum :: "int \<Rightarrow> PollLayoutType" where
  "try_enum v = (if v = 1 then default_layout else unknown_layout v)"

fun layout_value :: "PollLayoutType \<Rightarrow> int" where
  "layout_value default_layout = 1"
| "layout_value (unknown_layout v) = v"

text \<open>
  A \<open>datetime\<close> is a number of microseconds on the UTC time line, so that
  \<open>timedelta(hours=d)\<close> is \<open>d * 3600000000\<close>; the range of Python's \<open>datetime\<close>, which ends
  with the year 9999, is not modelled. The fields \<open>_answers\<close> and \<open>_counts\<close> hold references
  into the heap.
\<close>

type_synonym datetime = int

definition timedelta_hours :: "int \<Rightarrow> int" where
  "timedelta_hours d = d * 3600000000"

record Poll =
  question :: string
  poll_answers :: nat
  duration :: int
  multiselect :: bool
  layout_type :: PollLayoutType
  poll_message :: "Message option"
  poll_state :: "ConnectionState option"
  poll_finalized :: bool
  poll_counts :: "nat option"
  poll_expiry :: datetime

text \<open>The constructor; \<open>now\<close> is what \<open>utils.utcnow()\<close> returns.\<close>

definition Poll_init ::
  "datetime \<Rightarrow> string \<Rightarrow> int \<Rightarrow> bool \<Rightarrow> PollLayoutType \<Rightarrow> heap \<Rightarrow> Poll \<times> heap" where
  "Poll_init now q d ms lt h =
     (let (r, h') = new_answer_list [] h
      in (\<lparr>question = q, poll_answers = r, duration = d, multiselect = ms, layout_type = lt,
           poll_message = None, poll_state = None, poll_finalized = False,
           poll_counts = None, poll_expiry = now + timedelta_hours d\<rparr>, h'))"

text \<open>
  \<open>Poll._from_data\<close>. \<open>fromisoformat\<close> is \<open>datetime.fromisoformat\<close> on strings: it gives the
  time a string reads as or the \<open>ValueError\<close> it raises, which nothing here catches. On
  \<open>None\<close>, an absent \<open>expiry\<close>, \<open>datetime.fromisoformat\<close> raises \<open>TypeError\<close>.
\<close>

definition from_data ::
  "(string \<Rightarrow> error + datetime) \<Rightarrow> datetime \<Rightarrow> PollWithExpiryPayload \<Rightarrow> Message
     \<Rightarrow> ConnectionState \<Rightarrow> heap \<Rightarrow> (error + Poll) \<times> heap" where
  "from_data fromisoformat now data message state h =
     (let (answers, h) =
            new_answer_list (map (\<lambda>answer. PollAnswer_init answer (Some message)) (pl_answers data)) h;
          ms = (case pl_allow_multiselect data of None \<Rightarrow> False | Some b \<Rightarrow> b);
          expiry = pl_expiry data;
          lt = try_enum (case pl_layout_type data of None \<Rightarrow> 1 | Some v \<Rightarrow> v);
          q = pl_question_text data;
          (self, h) = Poll_init now q 1 ms lt h;
          self = self\<lparr>poll_answers := answers\<rparr>;
          self = self\<lparr>poll_message := Some message\<rparr>;
          self = self\<lparr>poll_state := Some state\<rparr>
      in case (case expiry of
                 None \<Rightarrow> Inl (TypeError ''fromisoformat: argument must be str'')
               | Some s \<Rightarrow> fromisoformat s) of
           Inl e \<Rightarrow> (Inl e, h)
         | Inr t \<Rightarrow>
            (let self = self\<lparr>poll_expiry := t\<rparr>
             in case pl_results data of
                  None \<Rightarrow> (Inr self, h)
                | Some results \<Rightarrow>
                    (let self = self\<lparr>poll_finalized := pl_is_finalized results\<rparr>;
                         (counts, h) =
                            new_count_list
                              (map (PollAnswerCount_init state message) (pl_answer_counts results)) h
                     in (Inr (self\<lparr>poll_counts := Some counts\<rparr>), h))))"

text \<open>The properties \<open>answers\<close>, \<open>expiry\<close>, \<open>answer_counts\<close> and \<open>is_finalized\<close>.\<close>

definition answers :: "Poll \<Rightarrow> heap \<Rightarrow> nat \<times> heap" where
  "answers self h = new_answer_list (answer_lists h (poll_answers self)) h"

definition expiry :: "Poll \<Rightarrow> datetime" where
  "expiry self = poll_expiry self"

definition answer_counts :: "Poll \<Rightarrow> heap \<Rightarrow> nat option \<times> heap" where
  "answer_counts self h =
     (case poll_counts self of
        None \<Rightarrow> (None, h)
      | Some c \<Rightarrow>
          if count_lists h c \<noteq> []
          then (let (r, h') = new_count_list (count_lists h c) h in (Some r, h'))
          else (None, h))"

definition is_finalized :: "Poll \<Rightarrow> bool" where
  "is_finalized self = poll_finalized self"

definition Poll_to_dict :: "(PartialEmoji \<Rightarrow> string) \<Rightarrow> Poll \<Rightarrow> heap \<Rightarrow> json \<times> heap" where
  "Poll_to_dict emoji_str self h =
     (let data = [];
          data = AList.update ''allow_multiselect'' (JBool (multiselect self)) data;
          data = AList.update ''question'' (JDict [(''text'', JStr (question self))]) data;
          data = AList.update ''duration'' (JInt (duration self)) data;
          data = AList.update ''layout_type'' (JInt (layout_value (layout_type self))) data;
          (r, h') = answers self h;
          data = AList.update ''answers''
                   (JList (map (\<lambda>answer. JDict [(''poll_media'', PollAnswer_to_dict emoji_str answer)])
                               (answer_lists h' r))) data
      in (JDict data, h'))"

text \<open>
  \<open>add_answer\<close> appends to the list object the poll holds and returns \<open>self\<close>: the same
  poll, holding the same references.
\<close>

definition add_answer :: "Poll \<Rightarrow> string \<Rightarrow> emoji_arg option \<Rightarrow> heap \<Rightarrow> Poll \<times> heap" where
  "add_answer self txt em h =
     (let (r, h) = answers self h;
          answer = from_params (int (length (answer_lists h r)) + 1) txt em (poll_message self);
          h = h\<lparr>answer_lists := (answer_lists h)
                  (poll_answers self := answer_lists h (poll_answers self) @ [answer])\<rparr>
      in (self, h))"

text \<open>
  \<open>get_answer\<close>: the \<open>except IndexError\<close> clause turns that error, and no other, into
  \<open>None\<close>.
\<close>

definition get_answer :: "Poll \<Rightarrow> int \<Rightarrow> heap \<Rightarrow> (error + PollAnswer option) \<times> heap" where
  "get_answer self i h =
     (let (r, h) = answers self h
      in if i > int (length (answer_lists h r)) then (Inr None, h)
         else
           (let (r, h) = answers self h
            in case getitem (answer_lists h r) (i - 1) of
                 Inr a \<Rightarrow> (Inr (Some a), h)
               | Inl IndexError \<Rightarrow> (Inr None, h)
               | Inl e \<Rightarrow> (Inl e, h)))"

text \<open>
  \<open>Poll.end\<close>, awaited. poll.py imports \<open>Message\<close> under \<open>TYPE_CHECKING\<close> only, so when
  the transport has answered, \<open>return Message(...)\<close> finds no such name and raises
  \<open>NameError\<close>: the request is sent and no message is returned.
\<close>

definition Poll_end ::
  "(ConnectionState \<Rightarrow> ('u, 'm) HTTPClient) \<Rightarrow> Poll \<Rightarrow> request list
     \<Rightarrow> (error + 'm EndedMessage) \<times> request list" where
  "Poll_end http self net =
     (case poll_message self of
        None \<Rightarrow>
          (Inl (RuntimeError
             ''This method can only be called when a message is present, try using this via Message.poll.end()''),
           net)
      | Some m \<Rightarrow>
          (let net' = net @ [EndPoll (channel_id (channel m)) (message_id m)]
           in case end_poll (http (message_state m)) (channel_id (channel m)) (message_id m) of
                Inl e \<Rightarrow> (Inl e, net')
              | Inr message \<Rightarrow> (Inl (NameError ''Message''), net')))"

section \<open>Notions used to state the properties\<close>

text \<open>\<open>d.get(k)\<close> on an outbound dictionary.\<close>

fun json_get :: "json \<Rightarrow> string \<Rightarrow> json option" where
  "json_get (JDict kvs) k = map_of kvs k"
| "json_get _ k = None"

text \<open>
  A caller changing a list it holds a reference to, by any of \<open>append\<close>, \<open>pop\<close>,
  \<open>clear\<close>, item assignment and so on: the list stored at \<open>r\<close> becomes \<open>f\<close> of it.
\<close>

definition mutate_answer_list :: "nat \<Rightarrow> (PollAnswer list \<Rightarrow> PollAnswer list) \<Rightarrow> heap \<Rightarrow> heap" where
  "mutate_answer_list r f h = h\<lparr>answer_lists := (answer_lists h)(r := f (answer_lists h r))\<rparr>"

definition mutate_count_list ::
  "nat \<Rightarrow> (PollAnswerCount list \<Rightarrow> PollAnswerCount list) \<Rightarrow> heap \<Rightarrow> heap" where
  "mutate_count_list r f h = h\<lparr>count_lists := (count_lists h)(r := f (count_lists h r))\<rparr>"

text \<open>
  \<open>poll.add_answer(...).add_answer(...)\<close> and so on: each call is made on the poll the
  call before it returned.
\<close>

fun add_answers :: "Poll \<Rightarrow> (string \<times> emoji_arg option) list \<Rightarrow> heap \<Rightarrow> Poll \<times> heap" where
  "add_answers self [] h = (self, h)"
| "add_answers self ((txt, em) # rest) h =
     (case add_answer self txt em h of (self', h') \<Rightarrow> add_answers self' rest h')"

text \<open>
  The outbound form \<open>{text, emoji?: {name, id?}}\<close> of an inbound \<open>poll_media\<close>, as the round
  trip is stated: the text as it came; the emoji, when there is one, under the name
  \<open>str(PartialEmoji(name, id))\<close> and with its id when the id is there and is not zero.
\<close>

definition outbound_emoji :: "(PartialEmoji \<Rightarrow> string) \<Rightarrow> PollEmojiPayload \<Rightarrow> json" where
  "outbound_emoji emoji_str e =
     JDict ((''name'', JStr (emoji_str \<lparr>name = emoji_name e, partial_id = emoji_id e\<rparr>)) #
            (case emoji_id e of
               None \<Rightarrow> []
             | Some i \<Rightarrow> if i = 0 then [] else [(''id'', JInt i)]))"

definition outbound_media :: "(PartialEmoji \<Rightarrow> string) \<Rightarrow> PollMediaPayload \<Rightarrow> json" where
  "outbound_media emoji_str m =
     JDict ((''text'', JStr (media_text m)) #
            (case media_emoji m of
               None \<Rightarrow> []
             | Some e \<Rightarrow> [(''emoji'', outbound_emoji emoji_str e)]))"

section \<open>Example values\<close>

definition no_lists :: heap where
  "no_lists = \<lparr>answer_lists = (\<lambda>r. []), count_lists = (\<lambda>r. []), next_ref = 0\<rparr>"

definition failing_http :: "ConnectionState \<Rightarrow> (unit, unit) HTTPClient" where
  "failing_http st = \<lparr>get_poll_answer_voters = (\<lambda>c m a after limit. Inl HTTPException),
                       end_poll = (\<lambda>c m. Inl HTTPException)\<rparr>"

definition empty_http :: "ConnectionState \<Rightarrow> (unit, unit) HTTPClient" where
  "empty_http st = \<lparr>get_poll_answer_voters = (\<lambda>c m a after limit. Inr []),
                     end_poll = (\<lambda>c m. Inr ())\<rparr>"

definition example_message :: Message where
  "example_message = \<lparr>message_id = 7, channel = \<lparr>channel_id = 3\<rparr>, message_state = 5\<rparr>"

definition example_answer :: PollAnswer where
  "example_answer =
     PollAnswer_init \<lparr>pl_answer_id = 1,
        pl_poll_media = \<lparr>media_text = ''A'', media_emoji = None\<rparr>\<rparr> (Some example_message)"

definition example_tally :: PollAnswerCount where
  "example_tally =
     PollAnswerCount_init 5 example_message \<lparr>pl_id = 1, pl_me_voted = True, pl_count = 3\<rparr>"

text \<open>The clock of the examples reads 2026-01-01T00:00:00+00:00.\<close>

definition example_now :: datetime where
  "example_now = 1767225600000000"

definition example_fromisoformat :: "string \<Rightarrow> error + datetime" where
  "example_fromisoformat s =
     (if s = ''2030-01-01T00:00:00+00:00'' then Inr 1893456000000000
      else Inl (ValueError (''Invalid isoformat string: '' @ s)))"

text \<open>The example payload of the spec, with an emoji on each answer.\<close>

definition example_payload :: PollWithExpiryPayload where
  "example_payload =
     \<lparr>pl_question_text = ''Pick one'',
      pl_answers =
        [\<lparr>pl_answer_id = 1,
          pl_poll_media = \<lparr>media_text = ''A'',
             media_emoji = Some \<lparr>emoji_id = Some 41771983429993937, emoji_name = ''yes''\<rparr>\<rparr>\<rparr>,
         \<lparr>pl_answer_id = 2,
          pl_poll_media = \<lparr>media_text = ''B'',
             media_emoji = Some \<lparr>emoji_id = None, emoji_name = ''no''\<rparr>\<rparr>\<rparr>],
      pl_allow_multiselect = Some False,
      pl_expiry = Some ''2030-01-01T00:00:00+00:00'',
      pl_layout_type = None,
      pl_results = Some \<lparr>pl_is_finalized = True,
         pl_answer_counts = [\<lparr>pl_id = 1, pl_me_voted = True, pl_count = 3\<rparr>,
                             \<lparr>pl_id = 2, pl_me_voted = False, pl_count = 1\<rparr>]\<rparr>\<rparr>"

text \<open>A payload whose results carry no tallies.\<close>

definition no_tallies_payload :: PollWithExpiryPayload where
  "no_tallies_payload =
     example_payload\<lparr>pl_results := Some \<lparr>pl_is_finalized = False, pl_answer_counts = []\<rparr>\<rparr>"

text \<open>The polls \<open>_from_data\<close> makes of the example payloads, and the heap they are in.\<close>

definition example_poll :: Poll where
  "example_poll =
     \<lparr>question = ''Pick one'', poll_answers = 0, duration = 1, multiselect = False,
      layout_type = default_layout, poll_message = Some example_message,
      poll_state = Some 5, poll_finalized = True, poll_counts = Some 2,
      poll_expiry = 1893456000000000\<rparr>"

definition example_heap :: heap where
  "example_heap =
     snd (from_data example_fromisoformat example_now example_payload example_message 5 no_lists)"

definition no_tallies_poll :: Poll where
  "no_tallies_poll = example_poll\<lparr>poll_finalized := False\<rparr>"

definition no_tallies_heap :: heap where
  "no_tallies_heap =
     snd (from_data example_fromisoformat example_now no_tallies_payload example_message 5
            no_lists)"

text \<open>A poll fresh from the constructor, and three answers to add to it.\<close>

definition fresh_poll :: Poll where
  "fresh_poll = fst (Poll_init example_now ''Q'' 24 False default_layout no_lists)"

definition fresh_heap :: heap where
  "fresh_heap = snd (Poll_init example_now ''Q'' 24 False default_layout no_lists)"

definition three_answers :: "(string \<times> emoji_arg option) list" where
  "three_answers =
     [(''A'', None), (''B'', Some (EmojiString ''x'')),
      (''C'', Some (EmojiObject (Some 9) ''<:c:9>''))]"

section \<open>Failures that come before the request\<close>

text \<open>
  C5. An answer with no message attached fails \<open>users\<close>, and a poll with no message
  attached fails \<open>end\<close>, with the \<open>RuntimeError\<close> of the source, and the log of requests
  is as it was: nothing was sent. The operations are modelled as awaited; the error
  comes before the first point where the coroutine could be suspended.
\<close>

theorem unattached_fails_before_request:
  "(answer_message a = None \<longrightarrow>
      PollAnswer_users http a after limit net =
        (Inl (RuntimeError ''You cannot fetch users in a non-message-attached poll''), net)) \<and>
   (poll_message p = None \<longrightarrow>
      Poll_end http p net =
        (Inl (RuntimeError
           ''This method can only be called when a message is present, try using this via Message.poll.end()''),
         net))"
  by (simp add: PollAnswer_users_def Poll_end_def)

theorem unattached_fails_before_request_witness:
  "answer_message (from_params 1 ''A'' None None) = None \<and>
   PollAnswer_users failing_http (from_params 1 ''A'' None None) None 25 [] =
     (Inl (RuntimeError ''You cannot fetch users in a non-message-attached poll''), []) \<and>
   poll_message (fst (Poll_init 0 ''Q'' 24 False default_layout no_lists)) = None \<and>
   Poll_end failing_http (fst (Poll_init 0 ''Q'' 24 False default_layout no_lists)) [] =
     (Inl (RuntimeError
        ''This method can only be called when a message is present, try using this via Message.poll.end()''),
      [])"
proof -
  have a: "answer_message (from_params 1 ''A'' None None) = None"
    by (simp add: from_params_def PollAnswer_init_def)
  have p: "poll_message (fst (Poll_init 0 ''Q'' 24 False default_layout no_lists)) = None"
    by (simp add: Poll_init_def new_answer_list_def)
  show ?thesis
    using a p
      unattached_fails_before_request
        [of "from_params 1 ''A'' None None" failing_http None 25 "[]"
            "fst (Poll_init 0 ''Q'' 24 False default_layout no_lists)"]
    by simp
qed

text \<open>
  C7. An answer built with a message attached (its state is then the message's) fails
  \<open>users\<close> with the \<open>ValueError\<close> of the source for every limit below 0 or above 100, and
  the log of requests is as it was. The same holds of any answer holding a message and a
  state.
\<close>

theorem limit_out_of_range_fails_before_request:
  assumes "limit < 0 \<or> 100 < limit"
  shows "PollAnswer_users http (PollAnswer_init data (Some m)) after limit net =
           (Inl (ValueError ''limit can only be within 0 and 100''), net) \<and>
         (answer_message a = Some m \<longrightarrow> answer_state a = Some st \<longrightarrow>
            PollAnswer_users http a after limit net =
              (Inl (ValueError ''limit can only be within 0 and 100''), net))"
  using assms by (auto simp add: PollAnswer_users_def PollAnswer_init_def)

theorem limit_out_of_range_fails_before_request_witness:
  "((101::int) < 0 \<or> (100::int) < 101) \<and>
   PollAnswer_users failing_http
       example_answer
       None 101 [] =
     (Inl (ValueError ''limit can only be within 0 and 100''), []) \<and>
   PollAnswer_users failing_http
       example_answer
       None (- 1) [] =
     (Inl (ValueError ''limit can only be within 0 and 100''), [])"
proof -
  have hi: "(101::int) < 0 \<or> (100::int) < 101" by simp
  have lo: "(- 1::int) < 0 \<or> (100::int) < - 1" by simp
  show ?thesis
    using hi limit_out_of_range_fails_before_request [OF hi, of failing_http _ example_message None "[]"]
      limit_out_of_range_fails_before_request [OF lo, of failing_http _ example_message None "[]"]
    by (simp add: example_answer_def)
qed

text \<open>
  \<open>PollAnswerCount.users\<close> sends its request whatever the limit, and within 0 to 100 it
  does what \<open>PollAnswer.users\<close> does on an answer with the tally's id, message and
  state.
\<close>

lemma tally_users_always_sends:
  "snd (PollAnswerCount_users http c after limit net) =
     net @ [GetPollAnswerVoters (channel_id (channel (count_message c)))
              (message_id (count_message c)) (count_id c) after limit]"
  by (simp add: PollAnswerCount_users_def Let_def split: sum.splits)

lemma tally_users_as_answer_users_in_range:
  assumes "0 \<le> limit" and "limit \<le> 100"
    and "answer_message a = Some (count_message c)"
    and "answer_state a = Some (count_state c)"
    and "answer_id a = count_id c"
  shows "PollAnswerCount_users http c after limit net = PollAnswer_users http a after limit net"
  using assms
  by (simp add: PollAnswerCount_users_def PollAnswer_users_def Let_def split: sum.splits)

text \<open>
  C1. The claim asks of a tally what \<open>PollAnswer.users\<close> does: the \<open>ValueError\<close> and no
  request for a limit outside 0 to 100. On the tally of the example message with limit
  101, \<open>PollAnswerCount.users\<close> sends the request with limit 101 and returns the users of
  the response; \<open>PollAnswer.users\<close> on the answer of the same message, with the same
  limit, raises the \<open>ValueError\<close> and sends nothing.
\<close>

theorem tally_users_sends_limit_101:
  "PollAnswerCount_users empty_http example_tally None 101 [] =
     (Inr [], [GetPollAnswerVoters 3 7 1 None 101]) \<and>
   PollAnswer_users empty_http example_answer None 101 [] =
     (Inl (ValueError ''limit can only be within 0 and 100''), [])"
  by (simp add: PollAnswerCount_users_def example_tally_def PollAnswerCount_init_def
        PollAnswer_users_def example_answer_def PollAnswer_init_def
        example_message_def empty_http_def)

section \<open>The constructor\<close>

text \<open>
  C6. A poll built by the constructor with duration \<open>d\<close> (any \<open>d\<close>, so each of 1, 4, 8, 24,
  72 and 168) expires \<open>d\<close> hours after the clock reading taken in the constructor, has an
  empty list of answers, no message and no state, is not finalized, and has no tallies.
\<close>

theorem constructed_poll_fields:
  assumes "Poll_init now q d ms lt h = (p, h')"
  shows "expiry p = now + d * 3600000000 \<and>
         answer_lists h' (poll_answers p) = [] \<and>
         answer_lists (snd (answers p h')) (fst (answers p h')) = [] \<and>
         poll_message p = None \<and> poll_state p = None \<and>
         is_finalized p = False \<and>
         fst (answer_counts p h') = None \<and>
         question p = q \<and> duration p = d \<and> multiselect p = ms \<and> layout_type p = lt"
  using assms
  by (auto simp add: Poll_init_def new_answer_list_def expiry_def timedelta_hours_def
        answers_def is_finalized_def answer_counts_def)

theorem constructed_poll_fields_witness:
  "expiry (fst (Poll_init example_now ''Q'' 168 False default_layout no_lists)) =
     example_now + 168 * 3600000000 \<and>
   answer_lists (snd (Poll_init example_now ''Q'' 168 False default_layout no_lists))
     (poll_answers (fst (Poll_init example_now ''Q'' 168 False default_layout no_lists))) = [] \<and>
   poll_message (fst (Poll_init example_now ''Q'' 168 False default_layout no_lists)) = None \<and>
   poll_state (fst (Poll_init example_now ''Q'' 168 False default_layout no_lists)) = None \<and>
   is_finalized (fst (Poll_init example_now ''Q'' 168 False default_layout no_lists)) = False \<and>
   fst (answer_counts (fst (Poll_init example_now ''Q'' 168 False default_layout no_lists))
          (snd (Poll_init example_now ''Q'' 168 False default_layout no_lists))) = None"
  using constructed_poll_fields
          [of example_now "''Q''" 168 False default_layout no_lists
              "fst (Poll_init example_now ''Q'' 168 False default_layout no_lists)"
              "snd (Poll_init example_now ''Q'' 168 False default_layout no_lists)"]
  by simp

section \<open>Polls made from a payload\<close>

text \<open>What a poll that \<open>_from_data\<close> returned holds, and where its lists are.\<close>

lemma from_data_Inr:
  assumes "from_data f now data m st h = (Inr p, h')"
  shows "\<exists>s. pl_expiry data = Some s \<and> f s = Inr (poll_expiry p) \<and> duration p = 1 \<and>
           question p = pl_question_text data \<and>
           multiselect p = (case pl_allow_multiselect data of None \<Rightarrow> False | Some b \<Rightarrow> b) \<and>
           layout_type p = try_enum (case pl_layout_type data of None \<Rightarrow> 1 | Some v \<Rightarrow> v) \<and>
           poll_message p = Some m \<and> poll_state p = Some st \<and>
           poll_answers p = next_ref h \<and>
           answer_lists h' (poll_answers p) =
             map (\<lambda>answer. PollAnswer_init answer (Some m)) (pl_answers data) \<and>
           poll_answers p < next_ref h' \<and>
           (case pl_results data of
              None \<Rightarrow> poll_counts p = None \<and> poll_finalized p = False
            | Some r \<Rightarrow> poll_counts p = Some (Suc (Suc (next_ref h))) \<and>
                        poll_finalized p = pl_is_finalized r \<and>
                        Suc (Suc (next_ref h)) < next_ref h' \<and>
                        count_lists h' (Suc (Suc (next_ref h))) =
                          map (PollAnswerCount_init st m) (pl_answer_counts r))"
  using assms
  by (auto simp add: from_data_def Poll_init_def new_answer_list_def new_count_list_def Let_def
        split: option.splits prod.splits sum.splits)

lemma to_dict_duration:
  "json_get (fst (Poll_to_dict emoji_str p h)) ''duration'' = Some (JInt (duration p))"
  by (simp add: Poll_to_dict_def answers_def new_answer_list_def Let_def)

lemma example_from_data:
  "from_data example_fromisoformat example_now example_payload example_message 5 no_lists =
     (Inr example_poll, example_heap)"
  by (simp add: prod_eq_iff example_heap_def example_poll_def from_data_def
        example_fromisoformat_def example_payload_def no_lists_def
        Poll_init_def new_answer_list_def new_count_list_def try_enum_def)

lemma example_heap_lists:
  "next_ref example_heap = 3 \<and>
   answer_lists example_heap 0 =
     map (\<lambda>answer. PollAnswer_init answer (Some example_message)) (pl_answers example_payload) \<and>
   count_lists example_heap 2 =
     [PollAnswerCount_init 5 example_message \<lparr>pl_id = 1, pl_me_voted = True, pl_count = 3\<rparr>,
      PollAnswerCount_init 5 example_message \<lparr>pl_id = 2, pl_me_voted = False, pl_count = 1\<rparr>]"
  by (simp add: example_heap_def from_data_def
        example_fromisoformat_def example_payload_def no_lists_def
        Poll_init_def new_answer_list_def new_count_list_def try_enum_def)

lemma no_tallies_from_data:
  "from_data example_fromisoformat example_now no_tallies_payload example_message 5 no_lists =
     (Inr no_tallies_poll, no_tallies_heap)"
  by (simp add: prod_eq_iff no_tallies_heap_def no_tallies_poll_def example_poll_def from_data_def
        example_fromisoformat_def example_payload_def no_lists_def no_tallies_payload_def
        Poll_init_def new_answer_list_def new_count_list_def try_enum_def)

text \<open>
  C9. Every poll that \<open>_from_data\<close> returns has duration 1, whatever the payload: the
  constructor is called with duration 1 and only the expiry is set afterwards, to what
  the payload's expiry string reads as. Serializing such a poll, in any heap, gives
  \<open>duration\<close> 1.
\<close>

theorem from_data_duration_is_one:
  assumes "from_data fromisoformat now data m st h = (Inr p, h')"
  shows "duration p = 1 \<and>
         (\<exists>s. pl_expiry data = Some s \<and> fromisoformat s = Inr (expiry p)) \<and>
         json_get (fst (Poll_to_dict emoji_str p h'')) ''duration'' = Some (JInt 1)"
  using from_data_Inr [OF assms] by (auto simp add: to_dict_duration expiry_def)

theorem from_data_duration_is_one_witness:
  "from_data example_fromisoformat example_now example_payload example_message 5 no_lists =
     (Inr example_poll, example_heap) \<and>
   duration example_poll = 1 \<and>
   pl_expiry example_payload = Some ''2030-01-01T00:00:00+00:00'' \<and>
   example_fromisoformat ''2030-01-01T00:00:00+00:00'' = Inr (expiry example_poll) \<and>
   json_get (fst (Poll_to_dict PartialEmoji_str example_poll example_heap)) ''duration'' =
     Some (JInt 1)"
proof -
  have e: "pl_expiry example_payload = Some ''2030-01-01T00:00:00+00:00''"
    by (simp add: example_payload_def)
  show ?thesis
    using example_from_data e
      from_data_duration_is_one [OF example_from_data, of PartialEmoji_str example_heap]
    by simp
qed

text \<open>
  C10. A poll made from a payload whose results carry an empty \<open>answer_counts\<close> holds a
  list of tallies, which is empty, and its \<open>answer_counts\<close> accessor returns \<open>None\<close>. For
  every poll, a list the accessor does return is not empty.
\<close>

theorem empty_tallies_reported_as_none:
  assumes "from_data fromisoformat now data m st h = (Inr p, h')"
    and "pl_results data = Some results"
    and "pl_answer_counts results = []"
  shows "(\<exists>c. poll_counts p = Some c \<and> count_lists h' c = []) \<and>
         answer_counts p h' = (None, h') \<and>
         (answer_counts q g = (Some r, g') \<longrightarrow> count_lists g' r \<noteq> [])"
proof -
  from from_data_Inr [OF assms(1)] assms(2,3)
  have c: "poll_counts p = Some (Suc (Suc (next_ref h)))"
    and e: "count_lists h' (Suc (Suc (next_ref h))) = []"
    by auto
  have n: "answer_counts p h' = (None, h')"
    using c e by (simp add: answer_counts_def)
  have g: "answer_counts q g = (Some r, g') \<longrightarrow> count_lists g' r \<noteq> []"
    by (auto simp add: answer_counts_def new_count_list_def split: option.splits if_splits)
  show ?thesis using c e n g by simp
qed

theorem empty_tallies_reported_as_none_witness:
  "from_data example_fromisoformat example_now no_tallies_payload example_message 5 no_lists =
     (Inr no_tallies_poll, no_tallies_heap) \<and>
   pl_results no_tallies_payload = Some \<lparr>pl_is_finalized = False, pl_answer_counts = []\<rparr> \<and>
   poll_counts no_tallies_poll = Some 2 \<and>
   count_lists no_tallies_heap 2 = [] \<and>
   answer_counts no_tallies_poll no_tallies_heap = (None, no_tallies_heap) \<and>
   fst (answer_counts example_poll example_heap) = Some 3 \<and>
   count_lists (snd (answer_counts example_poll example_heap)) 3 \<noteq> []"
proof -
  have r: "pl_results no_tallies_payload = Some \<lparr>pl_is_finalized = False, pl_answer_counts = []\<rparr>"
    by (simp add: no_tallies_payload_def)
  have c: "poll_counts no_tallies_poll = Some 2"
    by (simp add: no_tallies_poll_def example_poll_def)
  have a: "fst (answer_counts example_poll example_heap) = Some 3"
    by (simp add: answer_counts_def example_poll_def example_heap_lists new_count_list_def)
  have a': "answer_counts example_poll example_heap =
             (Some 3, snd (answer_counts example_poll example_heap))"
    using a by (simp add: prod_eq_iff)
  show ?thesis
    using no_tallies_from_data r c a a'
      empty_tallies_reported_as_none
        [OF no_tallies_from_data r, of example_poll example_heap 3
            "snd (answer_counts example_poll example_heap)"]
    by auto
qed

section \<open>The accessors return copies\<close>

text \<open>
  C8. In a heap where the poll's lists are allocated, \<open>answers\<close> returns a new list
  object holding what the poll's list holds; whatever the caller then does to that
  object, the poll's own list, the tallies, and what the next call of \<open>answers\<close> returns
  are as before. The same for \<open>answer_counts\<close> whenever it returns a list. The elements
  are shared, as in a shallow copy; the claim is about the list.
\<close>

theorem accessors_return_copies:
  "(poll_answers p < next_ref h \<longrightarrow> answers p h = (r, h1) \<longrightarrow>
      r \<noteq> poll_answers p \<and>
      answer_lists h1 r = answer_lists h (poll_answers p) \<and>
      answer_lists (mutate_answer_list r f h1) (poll_answers p) = answer_lists h (poll_answers p) \<and>
      count_lists (mutate_answer_list r f h1) = count_lists h \<and>
      answer_lists (snd (answers p (mutate_answer_list r f h1)))
                   (fst (answers p (mutate_answer_list r f h1))) =
        answer_lists h (poll_answers p)) \<and>
   (poll_counts p = Some c \<longrightarrow> c < next_ref h \<longrightarrow> answer_counts p h = (Some r', h1') \<longrightarrow>
      r' \<noteq> c \<and>
      count_lists h1' r' = count_lists h c \<and>
      count_lists (mutate_count_list r' g h1') c = count_lists h c \<and>
      answer_lists (mutate_count_list r' g h1') = answer_lists h \<and>
      (\<exists>r''. fst (answer_counts p (mutate_count_list r' g h1')) = Some r'' \<and>
             count_lists (snd (answer_counts p (mutate_count_list r' g h1'))) r'' =
               count_lists h c))"
proof (intro conjI impI)
  assume wf: "poll_answers p < next_ref h" and a: "answers p h = (r, h1)"
  from a have r: "r = next_ref h"
    and h1: "h1 = h\<lparr>answer_lists := (answer_lists h)(next_ref h := answer_lists h (poll_answers p)),
                    next_ref := Suc (next_ref h)\<rparr>"
    by (auto simp add: answers_def new_answer_list_def)
  show "r \<noteq> poll_answers p" using wf r by simp
  show "answer_lists h1 r = answer_lists h (poll_answers p)" using r h1 by simp
  show "answer_lists (mutate_answer_list r f h1) (poll_answers p) = answer_lists h (poll_answers p)"
    using wf r h1 by (simp add: mutate_answer_list_def)
  show "count_lists (mutate_answer_list r f h1) = count_lists h"
    using h1 by (simp add: mutate_answer_list_def)
  show "answer_lists (snd (answers p (mutate_answer_list r f h1)))
                   (fst (answers p (mutate_answer_list r f h1))) =
        answer_lists h (poll_answers p)"
    using wf r h1 by (simp add: mutate_answer_list_def answers_def new_answer_list_def)
next
  assume pc: "poll_counts p = Some c" and wf: "c < next_ref h"
    and a: "answer_counts p h = (Some r', h1')"
  from a pc have ne: "count_lists h c \<noteq> []" and r: "r' = next_ref h"
    and h1: "h1' = h\<lparr>count_lists := (count_lists h)(next_ref h := count_lists h c),
                     next_ref := Suc (next_ref h)\<rparr>"
    by (auto simp add: answer_counts_def new_count_list_def split: if_splits)
  show "r' \<noteq> c" using wf r by simp
  show "count_lists h1' r' = count_lists h c" using r h1 by simp
  show "count_lists (mutate_count_list r' g h1') c = count_lists h c"
    using wf r h1 by (simp add: mutate_count_list_def)
  show "answer_lists (mutate_count_list r' g h1') = answer_lists h"
    using h1 by (simp add: mutate_count_list_def)
  show "\<exists>r''. fst (answer_counts p (mutate_count_list r' g h1')) = Some r'' \<and>
             count_lists (snd (answer_counts p (mutate_count_list r' g h1'))) r'' =
               count_lists h c"
    using wf r h1 pc ne
    by (simp add: mutate_count_list_def answer_counts_def new_count_list_def)
qed

theorem accessors_return_copies_witness:
  "poll_answers example_poll < next_ref example_heap \<and>
   fst (answers example_poll example_heap) \<noteq> poll_answers example_poll \<and>
   answer_lists (snd (answers example_poll example_heap)) (fst (answers example_poll example_heap)) =
     answer_lists example_heap (poll_answers example_poll) \<and>
   answer_lists
     (mutate_answer_list (fst (answers example_poll example_heap)) (\<lambda>xs. [])
        (snd (answers example_poll example_heap)))
     (poll_answers example_poll) = answer_lists example_heap (poll_answers example_poll) \<and>
   poll_counts example_poll = Some 2 \<and> 2 < next_ref example_heap \<and>
   fst (answer_counts example_poll example_heap) = Some 3 \<and>
   count_lists
     (mutate_count_list 3 (\<lambda>xs. []) (snd (answer_counts example_poll example_heap))) 2 =
     count_lists example_heap 2"
proof -
  have w: "poll_answers example_poll < next_ref example_heap"
    by (simp add: example_heap_lists example_poll_def)
  have c: "poll_counts example_poll = Some 2"
    by (simp add: example_poll_def)
  have n: "2 < next_ref example_heap"
    by (simp add: example_heap_lists)
  have a: "fst (answer_counts example_poll example_heap) = Some 3"
    by (simp add: answer_counts_def c example_heap_lists new_count_list_def)
  have a': "answer_counts example_poll example_heap =
             (Some 3, snd (answer_counts example_poll example_heap))"
    using a by (simp add: prod_eq_iff)
  have b: "answers example_poll example_heap =
             (fst (answers example_poll example_heap), snd (answers example_poll example_heap))"
    by simp
  show ?thesis
    using w c n a a' b
      accessors_return_copies
        [of example_poll example_heap "fst (answers example_poll example_heap)"
            "snd (answers example_poll example_heap)" "\<lambda>xs. []" 2 3
            "snd (answer_counts example_poll example_heap)" "\<lambda>xs. []"]
    by blast
qed

section \<open>Adding and looking up answers\<close>

text \<open>
  One call of \<open>add_answer\<close>, in a heap where the poll's list is allocated: the poll
  returned is the poll the call was made on, and its list has one more answer, whose id
  is the length the list had plus one.
\<close>

lemma add_answer_step:
  assumes "poll_answers p < next_ref h"
  shows "fst (add_answer p t e h) = p \<and>
         answer_lists (snd (add_answer p t e h)) (poll_answers p) =
           answer_lists h (poll_answers p) @
             [from_params (int (length (answer_lists h (poll_answers p))) + 1) t e (poll_message p)] \<and>
         next_ref (snd (add_answer p t e h)) = Suc (next_ref h)"
  using assms by (simp add: add_answer_def answers_def new_answer_list_def Let_def)

lemma add_answers_lists:
  assumes "poll_answers p < next_ref h"
  shows "fst (add_answers p args h) = p \<and>
         answer_lists (snd (add_answers p args h)) (poll_answers p) =
           answer_lists h (poll_answers p) @
             map (\<lambda>(k, (t, e)). from_params (int k) t e (poll_message p))
               (enumerate (Suc (length (answer_lists h (poll_answers p)))) args) \<and>
         poll_answers p < next_ref (snd (add_answers p args h))"
  using assms
proof (induction args arbitrary: h)
  case Nil
  then show ?case by simp
next
  case (Cons a args)
  obtain t e where a: "a = (t, e)" by (cases a)
  let ?h = "snd (add_answer p t e h)"
  from add_answer_step [OF Cons.prems, of t e]
  have s: "fst (add_answer p t e h) = p"
    and l: "answer_lists ?h (poll_answers p) =
           answer_lists h (poll_answers p) @
             [from_params (int (length (answer_lists h (poll_answers p))) + 1) t e (poll_message p)]"
    and n: "next_ref ?h = Suc (next_ref h)"
    by simp_all
  have wf: "poll_answers p < next_ref ?h" using n Cons.prems by simp
  from Cons.IH [OF wf] show ?case
    by (simp add: a s l case_prod_beta add.commute)
qed

text \<open>
  \<open>get_answer\<close> reads the poll's list through its copies: within \<open>1..n\<close> it returns the
  answer at that position, above \<open>n\<close> it returns \<open>None\<close>, and it never raises. At \<open>0\<close> and
  below, the index \<open>id - 1\<close> is negative and counts from the end of the list.
\<close>

lemma get_answer_in_range:
  assumes "1 \<le> k" and "k \<le> int (length (answer_lists h (poll_answers p)))"
  shows "fst (get_answer p k h) = Inr (Some (answer_lists h (poll_answers p) ! nat (k - 1)))"
  using assms
  by (simp add: get_answer_def answers_def new_answer_list_def getitem_def Let_def)

lemma get_answer_above_count:
  assumes "int (length (answer_lists h (poll_answers p))) < k"
  shows "fst (get_answer p k h) = Inr None"
  using assms
  by (simp add: get_answer_def answers_def new_answer_list_def Let_def)

lemma get_answer_never_raises:
  "\<exists>r. fst (get_answer p k h) = Inr r"
  by (simp add: get_answer_def answers_def new_answer_list_def getitem_def Let_def)

lemma get_answer_nonpositive:
  assumes "k \<le> 0"
  shows "fst (get_answer p k h) =
           (let xs = answer_lists h (poll_answers p)
            in if - int (length xs) < k then Inr (Some (xs ! nat (int (length xs) + k - 1)))
               else Inr None)"
  using assms
  by (auto simp add: get_answer_def answers_def new_answer_list_def getitem_def Let_def algebra_simps)

lemma from_params_id: "answer_id (from_params k t e m) = k"
  by (simp add: from_params_def PollAnswer_init_def Let_def)

lemma Poll_init_fresh:
  assumes "Poll_init now q d ms lt h = (p, h0)"
  shows "poll_answers p < next_ref h0 \<and> answer_lists h0 (poll_answers p) = [] \<and>
         poll_message p = None"
  using assms by (auto simp add: Poll_init_def new_answer_list_def)

lemma fresh_poll_init:
  "Poll_init example_now ''Q'' 24 False default_layout no_lists = (fresh_poll, fresh_heap)"
  by (simp add: fresh_poll_def fresh_heap_def)

lemma three_answers_nth:
  "length three_answers = 3 \<and> three_answers ! 0 = (''A'', None) \<and>
   three_answers ! Suc 0 = (''B'', Some (EmojiString ''x'')) \<and>
   take 1 three_answers = [(''A'', None)]"
  by (simp add: three_answers_def)

text \<open>
  C4. On a poll fresh from the constructor, adding the answers \<open>args\<close> one call after
  the other returns the same poll every time; the poll's list is then the answers built
  from \<open>args\<close> in call order with ids \<open>1..n\<close>; \<open>get_answer k\<close> for \<open>1 \<le> k \<le> n\<close> returns the
  \<open>k\<close>-th of them; and the call number \<open>j + 1\<close> finds \<open>j\<close> answers and appends one with id
  \<open>j + 1\<close>.
\<close>

theorem add_answer_sequential_ids:
  assumes i: "Poll_init now q d ms lt h = (p, h0)"
    and a: "add_answers p args h0 = (p', h')"
  shows "p' = p \<and>
     answer_lists h' (poll_answers p) =
       map (\<lambda>(k, (t, e)). from_params (int k) t e None) (enumerate 1 args) \<and>
     map answer_id (answer_lists h' (poll_answers p)) = map int [1..<Suc (length args)] \<and>
     (\<forall>k. 1 \<le> k \<and> k \<le> int (length args) \<longrightarrow>
        fst (get_answer p k h') =
          Inr (Some (from_params k (fst (args ! nat (k - 1))) (snd (args ! nat (k - 1))) None))) \<and>
     (\<forall>j<length args.
        length (answer_lists (snd (add_answers p (take j args) h0)) (poll_answers p)) = j \<and>
        fst (add_answer p (fst (args ! j)) (snd (args ! j))
               (snd (add_answers p (take j args) h0))) = p \<and>
        answer_lists
          (snd (add_answer p (fst (args ! j)) (snd (args ! j))
                  (snd (add_answers p (take j args) h0))))
          (poll_answers p) =
          answer_lists (snd (add_answers p (take j args) h0)) (poll_answers p) @
            [from_params (int j + 1) (fst (args ! j)) (snd (args ! j)) None])"
proof -
  from Poll_init_fresh [OF i]
  have wf: "poll_answers p < next_ref h0"
    and e: "answer_lists h0 (poll_answers p) = []"
    and m: "poll_message p = None"
    by simp_all
  have all: "\<And>xs. fst (add_answers p xs h0) = p \<and>
      answer_lists (snd (add_answers p xs h0)) (poll_answers p) =
        map (\<lambda>(k, (t, e)). from_params (int k) t e None) (enumerate 1 xs) \<and>
      poll_answers p < next_ref (snd (add_answers p xs h0))"
    using add_answers_lists [OF wf] by (simp add: e m)
  have same: "p' = p" using all [of args] a by simp
  have lists: "answer_lists h' (poll_answers p) =
       map (\<lambda>(k, (t, e)). from_params (int k) t e None) (enumerate 1 args)"
    using all [of args] a by simp
  have ids: "map answer_id (answer_lists h' (poll_answers p)) = map int [1..<Suc (length args)]"
  proof -
    have "map answer_id (answer_lists h' (poll_answers p)) =
            map (\<lambda>x. int (fst x)) (enumerate 1 args)"
      by (simp add: lists from_params_id case_prod_beta)
    also have "\<dots> = map int (map fst (enumerate 1 args))"
      by (simp only: map_map comp_def)
    also have "\<dots> = map int [1..<Suc (length args)]"
      by (simp only: map_fst_enumerate plus_1_eq_Suc)
    finally show ?thesis .
  qed
  have get: "\<forall>k. 1 \<le> k \<and> k \<le> int (length args) \<longrightarrow>
        fst (get_answer p k h') =
          Inr (Some (from_params k (fst (args ! nat (k - 1))) (snd (args ! nat (k - 1))) None))"
  proof (intro allI impI)
    fix k :: int
    assume k: "1 \<le> k \<and> k \<le> int (length args)"
    then have lt: "nat (k - 1) < length args" by auto
    have len: "length (answer_lists h' (poll_answers p)) = length args"
      by (simp add: lists)
    have "fst (get_answer p k h') = Inr (Some (answer_lists h' (poll_answers p) ! nat (k - 1)))"
      using k by (intro get_answer_in_range) (simp_all add: len)
    moreover have "answer_lists h' (poll_answers p) ! nat (k - 1) =
        from_params k (fst (args ! nat (k - 1))) (snd (args ! nat (k - 1))) None"
      using lt k by (simp add: lists nth_enumerate_eq case_prod_beta)
    ultimately show "fst (get_answer p k h') =
          Inr (Some (from_params k (fst (args ! nat (k - 1))) (snd (args ! nat (k - 1))) None))"
      by simp
  qed
  have steps: "\<forall>j<length args.
        length (answer_lists (snd (add_answers p (take j args) h0)) (poll_answers p)) = j \<and>
        fst (add_answer p (fst (args ! j)) (snd (args ! j))
               (snd (add_answers p (take j args) h0))) = p \<and>
        answer_lists
          (snd (add_answer p (fst (args ! j)) (snd (args ! j))
                  (snd (add_answers p (take j args) h0))))
          (poll_answers p) =
          answer_lists (snd (add_answers p (take j args) h0)) (poll_answers p) @
            [from_params (int j + 1) (fst (args ! j)) (snd (args ! j)) None]"
  proof (intro allI impI)
    fix j
    assume j: "j < length args"
    let ?h = "snd (add_answers p (take j args) h0)"
    have len: "length (answer_lists ?h (poll_answers p)) = j"
      using all [of "take j args"] j by simp
    have wfj: "poll_answers p < next_ref ?h"
      using all [of "take j args"] by simp
    from add_answer_step [OF wfj, of "fst (args ! j)" "snd (args ! j)"]
    show "length (answer_lists ?h (poll_answers p)) = j \<and>
        fst (add_answer p (fst (args ! j)) (snd (args ! j)) ?h) = p \<and>
        answer_lists (snd (add_answer p (fst (args ! j)) (snd (args ! j)) ?h)) (poll_answers p) =
          answer_lists ?h (poll_answers p) @
            [from_params (int j + 1) (fst (args ! j)) (snd (args ! j)) None]"
      by (simp add: len m)
  qed
  show ?thesis using same lists ids get steps by blast
qed

theorem add_answer_sequential_ids_witness:
  "fst (add_answers fresh_poll three_answers fresh_heap) = fresh_poll \<and>
   map answer_id
     (answer_lists (snd (add_answers fresh_poll three_answers fresh_heap))
        (poll_answers fresh_poll)) = [1, 2, 3] \<and>
   fst (get_answer fresh_poll 2 (snd (add_answers fresh_poll three_answers fresh_heap))) =
     Inr (Some (from_params 2 ''B'' (Some (EmojiString ''x'')) None)) \<and>
   length (answer_lists (snd (add_answers fresh_poll (take 1 three_answers) fresh_heap))
             (poll_answers fresh_poll)) = 1"
proof -
  have a: "add_answers fresh_poll three_answers fresh_heap =
             (fst (add_answers fresh_poll three_answers fresh_heap),
              snd (add_answers fresh_poll three_answers fresh_heap))"
    by simp
  note t = add_answer_sequential_ids [OF fresh_poll_init a]
  have same: "fst (add_answers fresh_poll three_answers fresh_heap) = fresh_poll"
    using t by blast
  have ids: "map answer_id
     (answer_lists (snd (add_answers fresh_poll three_answers fresh_heap))
        (poll_answers fresh_poll)) = map int [1..<Suc (length three_answers)]"
    using t by blast
  have ids': "map int [1..<Suc (length three_answers)] = [1, 2, 3]"
    by (simp add: three_answers_nth upt_rec)
  have "1 \<le> (2::int) \<and> (2::int) \<le> int (length three_answers)"
    by (simp add: three_answers_nth)
  with t have "fst (get_answer fresh_poll 2 (snd (add_answers fresh_poll three_answers fresh_heap))) =
     Inr (Some (from_params 2 (fst (three_answers ! nat (2 - 1)))
                  (snd (three_answers ! nat (2 - 1))) None))"
    by blast
  then have get: "fst (get_answer fresh_poll 2 (snd (add_answers fresh_poll three_answers fresh_heap))) =
     Inr (Some (from_params 2 ''B'' (Some (EmojiString ''x'')) None))"
    by (simp add: three_answers_nth)
  have "1 < length three_answers" by (simp add: three_answers_nth)
  with t have len: "length (answer_lists (snd (add_answers fresh_poll (take 1 three_answers) fresh_heap))
             (poll_answers fresh_poll)) = 1"
    by blast
  show ?thesis using same ids ids' get len by simp
qed

text \<open>
  C2. The claim asks \<open>None\<close> for every \<open>k \<le> 0\<close>. On a poll with the one answer \<open>A\<close>, whose
  id is 1, \<open>get_answer 0\<close> returns that answer: the source checks \<open>id > len(self.answers)\<close>
  only, and \<open>self.answers[0 - 1]\<close> is the last answer.
\<close>

theorem get_answer_zero_returns_last_answer:
  "map answer_id
     (answer_lists (snd (add_answer fresh_poll ''A'' None fresh_heap)) (poll_answers fresh_poll)) =
     [1] \<and>
   fst (get_answer fresh_poll 0 (snd (add_answer fresh_poll ''A'' None fresh_heap))) =
     Inr (Some (from_params 1 ''A'' None None))"
  by (simp add: fresh_poll_def fresh_heap_def Poll_init_def new_answer_list_def no_lists_def
        add_answer_def answers_def get_answer_def getitem_def from_params_def PollAnswer_init_def
        Let_def)

section \<open>From a payload and back\<close>

text \<open>
  An answer made from a payload serializes to the outbound form of its \<open>poll_media\<close>,
  and a poll serializes to its five keys in the order the source assigns them.
\<close>

lemma answer_to_dict_of_payload:
  "PollAnswer_to_dict emoji_str (PollAnswer_init a message) =
     outbound_media emoji_str (pl_poll_media a)"
  by (simp add: PollAnswer_to_dict_def PollAnswer_init_def PollAnswer_text_def
        PollAnswer_emoji_def outbound_media_def outbound_emoji_def Let_def
        split: option.splits)

lemma to_dict_shape:
  assumes "poll_answers p < next_ref h"
  shows "fst (Poll_to_dict emoji_str p h) =
     JDict [(''allow_multiselect'', JBool (multiselect p)),
            (''question'', JDict [(''text'', JStr (question p))]),
            (''duration'', JInt (duration p)),
            (''layout_type'', JInt (layout_value (layout_type p))),
            (''answers'',
             JList (map (\<lambda>answer. JDict [(''poll_media'', PollAnswer_to_dict emoji_str answer)])
                      (answer_lists h (poll_answers p))))]"
  by (simp add: Poll_to_dict_def answers_def new_answer_list_def Let_def)

text \<open>
  For every payload that \<open>_from_data\<close> makes a poll of and every rendering \<open>emoji_str\<close>,
  serializing that poll gives the question text of the payload, its multiselect flag
  (false when the payload has none), and one entry per answer of the payload, in order.
  Each entry has the one key \<open>poll_media\<close>, so no answer id, and under it the outbound form
  of the answer's \<open>poll_media\<close>.
\<close>

lemma roundtrip_outbound_form:
  assumes "from_data fromisoformat now data m st h = (Inr p, h')"
  shows "json_get (fst (Poll_to_dict emoji_str p h')) ''question'' =
           Some (JDict [(''text'', JStr (pl_question_text data))]) \<and>
         json_get (fst (Poll_to_dict emoji_str p h')) ''allow_multiselect'' =
           Some (JBool (case pl_allow_multiselect data of None \<Rightarrow> False | Some b \<Rightarrow> b)) \<and>
         json_get (fst (Poll_to_dict emoji_str p h')) ''answers'' =
           Some (JList (map (\<lambda>a. JDict [(''poll_media'', outbound_media emoji_str (pl_poll_media a))])
                          (pl_answers data))) \<and>
         json_keys (fst (Poll_to_dict emoji_str p h')) =
           [''allow_multiselect'', ''question'', ''duration'', ''layout_type'', ''answers''] \<and>
         (\<forall>a \<in> set (pl_answers data).
            json_get (outbound_media emoji_str (pl_poll_media a)) ''text'' =
              Some (JStr (media_text (pl_poll_media a))) \<and>
            set (json_keys (outbound_media emoji_str (pl_poll_media a))) \<subseteq> {''text'', ''emoji''})"
proof -
  from from_data_Inr [OF assms]
  have q: "question p = pl_question_text data"
    and ms: "multiselect p = (case pl_allow_multiselect data of None \<Rightarrow> False | Some b \<Rightarrow> b)"
    and l: "answer_lists h' (poll_answers p) =
              map (\<lambda>answer. PollAnswer_init answer (Some m)) (pl_answers data)"
    and wf: "poll_answers p < next_ref h'"
    by auto
  have keys: "\<forall>a \<in> set (pl_answers data).
            json_get (outbound_media emoji_str (pl_poll_media a)) ''text'' =
              Some (JStr (media_text (pl_poll_media a))) \<and>
            set (json_keys (outbound_media emoji_str (pl_poll_media a))) \<subseteq> {''text'', ''emoji''}"
    by (auto simp add: outbound_media_def split: option.splits)
  show ?thesis
    using keys
    by (simp add: to_dict_shape [OF wf] q ms l answer_to_dict_of_payload comp_def)
qed

lemma str_int_example: "str_int 41771983429993937 = ''41771983429993937''"
  by (simp add: str_int_def)

text \<open>
  C3. The claim asks that each answer's emoji comes back as it came. The first answer of
  the example payload has the emoji named \<open>yes\<close> with id 41771983429993937, the second the
  emoji named \<open>no\<close> with no id. Serializing the poll made of the payload gives the second
  emoji as it came, and the first under the name \<open><:yes:41771983429993937>\<close>: the source
  writes \<open>str(self.emoji)\<close> where the name is meant.
\<close>

theorem roundtrip_rewrites_custom_emoji_name:
  "from_data example_fromisoformat example_now example_payload example_message 5 no_lists =
     (Inr example_poll, example_heap) \<and>
   pl_answers example_payload =
     [\<lparr>pl_answer_id = 1,
       pl_poll_media = \<lparr>media_text = ''A'',
          media_emoji = Some \<lparr>emoji_id = Some 41771983429993937, emoji_name = ''yes''\<rparr>\<rparr>\<rparr>,
      \<lparr>pl_answer_id = 2,
       pl_poll_media = \<lparr>media_text = ''B'',
          media_emoji = Some \<lparr>emoji_id = None, emoji_name = ''no''\<rparr>\<rparr>\<rparr>] \<and>
   json_get (fst (Poll_to_dict PartialEmoji_str example_poll example_heap)) ''answers'' =
     Some (JList
       [JDict [(''poll_media'',
                JDict [(''text'', JStr ''A''),
                       (''emoji'', JDict [(''name'', JStr ''<:yes:41771983429993937>''),
                                          (''id'', JInt 41771983429993937)])])],
        JDict [(''poll_media'',
                JDict [(''text'', JStr ''B''),
                       (''emoji'', JDict [(''name'', JStr ''no'')])])]])"
proof -
  have a: "pl_answers example_payload =
     [\<lparr>pl_answer_id = 1,
       pl_poll_media = \<lparr>media_text = ''A'',
          media_emoji = Some \<lparr>emoji_id = Some 41771983429993937, emoji_name = ''yes''\<rparr>\<rparr>\<rparr>,
      \<lparr>pl_answer_id = 2,
       pl_poll_media = \<lparr>media_text = ''B'',
          media_emoji = Some \<lparr>emoji_id = None, emoji_name = ''no''\<rparr>\<rparr>\<rparr>]"
    by (simp add: example_payload_def)
  have b: "map (\<lambda>a. JDict [(''poll_media'', outbound_media PartialEmoji_str (pl_poll_media a))])
             (pl_answers example_payload) =
       [JDict [(''poll_media'',
                JDict [(''text'', JStr ''A''),
                       (''emoji'', JDict [(''name'', JStr ''<:yes:41771983429993937>''),
                                          (''id'', JInt 41771983429993937)])])],
        JDict [(''poll_media'',
                JDict [(''text'', JStr ''B''),
                       (''emoji'', JDict [(''name'', JStr ''no'')])])]]"
    by (simp add: a outbound_media_def outbound_emoji_def PartialEmoji_str_def str_int_example)
  show ?thesis
    using example_from_data a b
      roundtrip_outbound_form [OF example_from_data, of PartialEmoji_str]
    by simp
qed

end
